theory Spec2Isabelle
  imports Main "HOL-Library.Sublist"
begin

section \<open>The installer script \<open>install_model.py\<close>\<close>

text \<open>
  The script is twelve lines of straight-line Python:
  \<^verbatim>\<open>
  from transformers import AutoTokenizer, AutoConfig

  model_name = "meta-llama/Llama-2-7b-hf"
  tokenizer = AutoTokenizer.from_pretrained(model_name)
  config = AutoConfig.from_pretrained(model_name)

  tokenizer.save_pretrained('./llama2_tokenizer')
  config.save_pretrained('./llama2_config')
  \<close>
  Everything it does happens inside four calls into the \<open>transformers\<close> library, which is
  not part of the repository. The library is therefore a parameter of the model: a record
  of four functions, each of which reads and changes the world and either returns a value
  or raises. The script itself is the sequential composition of the four calls, where a
  raised exception ends the run.

  The \<open>import\<close> is taken to have succeeded: the library is there, as the parameter. An
  exception is one that the interpreter reports as an uncaught error; \<open>SystemExit\<close> and
  signals are not modelled.
\<close>

subsection \<open>The world the library acts on\<close>

type_synonym path = string

datatype node = Directory | File string

type_synonym filesystem = "path \<rightharpoonup> node"

text \<open>
  The local filesystem, and everything else the library can see or change (the hub, the
  network, credentials), which stays abstract.
\<close>

record 'r world =
  files :: filesystem
  remote :: 'r

subsection \<open>Calls that may raise\<close>

text \<open>An exception object; the script never inspects one, so only its text is kept.\<close>

datatype py_exception = PyException string

text \<open>
  A computation on a state \<open>'s\<close>: it returns \<open>Inr\<close> a value or \<open>Inl\<close> the exception it
  raised, together with the state it leaves behind.
\<close>

type_synonym ('a, 's) prog = "'s \<Rightarrow> (py_exception + 'a) \<times> 's"

text \<open>
  The part of \<open>transformers\<close> the script imports. \<open>'t\<close> is the type of tokenizer objects
  and \<open>'c\<close> the type of config objects; \<open>save_pretrained\<close> is a method of each, so it takes
  the object first.
\<close>

record ('t, 'c, 'r) transformers =
  AutoTokenizer_from_pretrained :: "string \<Rightarrow> ('t, 'r world) prog"
  AutoConfig_from_pretrained :: "string \<Rightarrow> ('c, 'r world) prog"
  tokenizer_save_pretrained :: "'t \<Rightarrow> path \<Rightarrow> (unit, 'r world) prog"
  config_save_pretrained :: "'c \<Rightarrow> path \<Rightarrow> (unit, 'r world) prog"

subsection \<open>The running script\<close>

text \<open>
  A library call as the script makes it, with its arguments. The run keeps a trace of the
  calls it has made, each with the exception it raised, if any.
\<close>

datatype ('t, 'c) call =
    FetchTokenizer string
  | FetchConfig string
  | SaveTokenizer 't path
  | SaveConfig 'c path

record ('t, 'c, 'r) process =
  the_world :: "'r world"
  trace :: "(('t, 'c) call \<times> py_exception option) list"

definition outcome :: "py_exception + 'a \<Rightarrow> py_exception option" where
  "outcome r = (case r of Inl e \<Rightarrow> Some e | Inr _ \<Rightarrow> None)"

text \<open>Making one library call: the world changes as the library says, the trace grows.\<close>

definition perform ::
  "('t, 'c) call \<Rightarrow> ('a, 'r world) prog \<Rightarrow> ('a, ('t, 'c, 'r) process) prog" where
  "perform c f s =
     (case f (the_world s) of
        (r, w') \<Rightarrow> (r, \<lparr>the_world = w', trace = trace s @ [(c, outcome r)]\<rparr>))"

text \<open>
  One statement after another. Python has no \<open>try\<close> here, so an exception raised by the
  first statement is the result of the whole and the second statement is not run.
\<close>

definition py_then :: "('a, 's) prog \<Rightarrow> ('a \<Rightarrow> ('b, 's) prog) \<Rightarrow> ('b, 's) prog" where
  "py_then m f s = (case m s of (Inl e, s') \<Rightarrow> (Inl e, s') | (Inr a, s') \<Rightarrow> f a s')"

definition from_pretrained_tokenizer ::
  "('t, 'c, 'r) transformers \<Rightarrow> string \<Rightarrow> ('t, ('t, 'c, 'r) process) prog" where
  "from_pretrained_tokenizer T name =
     perform (FetchTokenizer name) (AutoTokenizer_from_pretrained T name)"

definition from_pretrained_config ::
  "('t, 'c, 'r) transformers \<Rightarrow> string \<Rightarrow> ('c, ('t, 'c, 'r) process) prog" where
  "from_pretrained_config T name =
     perform (FetchConfig name) (AutoConfig_from_pretrained T name)"

definition save_pretrained_tokenizer ::
  "('t, 'c, 'r) transformers \<Rightarrow> 't \<Rightarrow> path \<Rightarrow> (unit, ('t, 'c, 'r) process) prog" where
  "save_pretrained_tokenizer T tokenizer dir =
     perform (SaveTokenizer tokenizer dir) (tokenizer_save_pretrained T tokenizer dir)"

definition save_pretrained_config ::
  "('t, 'c, 'r) transformers \<Rightarrow> 'c \<Rightarrow> path \<Rightarrow> (unit, ('t, 'c, 'r) process) prog" where
  "save_pretrained_config T config dir =
     perform (SaveConfig config dir) (config_save_pretrained T config dir)"

definition model_name :: string where
  "model_name = ''meta-llama/Llama-2-7b-hf''"

text \<open>The module body, line by line.\<close>

definition install_model ::
  "('t, 'c, 'r) transformers \<Rightarrow> (unit, ('t, 'c, 'r) process) prog" where
  "install_model T =
     py_then (from_pretrained_tokenizer T model_name) (\<lambda>tokenizer.
     py_then (from_pretrained_config T model_name) (\<lambda>config.
     py_then (save_pretrained_tokenizer T tokenizer ''./llama2_tokenizer'') (\<lambda>_.
     save_pretrained_config T config ''./llama2_config'')))"

text \<open>
  Running the script as a process: it starts with an empty trace. The interpreter exits
  with status 1 when the module body ends in an exception nobody caught, with 0 otherwise.
\<close>

definition run ::
  "('t, 'c, 'r) transformers \<Rightarrow> 'r world \<Rightarrow> (py_exception + unit) \<times> ('t, 'c, 'r) process" where
  "run T w = install_model T \<lparr>the_world = w, trace = []\<rparr>"

definition exit_code :: "py_exception + unit \<Rightarrow> nat" where
  "exit_code r = (case r of Inl _ \<Rightarrow> 1 | Inr _ \<Rightarrow> 0)"

definition exit_status :: "('t, 'c, 'r) transformers \<Rightarrow> 'r world \<Rightarrow> nat" where
  "exit_status T w = exit_code (fst (run T w))"

definition calls ::
  "('t, 'c, 'r) transformers \<Rightarrow> 'r world \<Rightarrow> (('t, 'c) call \<times> py_exception option) list" where
  "calls T w = trace (snd (run T w))"

definition final :: "('t, 'c, 'r) transformers \<Rightarrow> 'r world \<Rightarrow> 'r world" where
  "final T w = the_world (snd (run T w))"

section \<open>What the library is assumed to do\<close>

text \<open>
  The script says nothing about the filesystem: only the library touches it. Statements
  about files therefore rest on a contract of the library, spelled out here as predicates
  on the parameter \<open>T\<close>. None of them is part of the script.
\<close>

text \<open>\<open>under d p\<close>: the path \<open>p\<close> is the directory \<open>d\<close> or lies below it.\<close>

definition under :: "path \<Rightarrow> path \<Rightarrow> bool" where
  "under d p \<longleftrightarrow> p = d \<or> prefix (d @ ''/'') p"

text \<open>Neither fetch ever changes what is at path \<open>p\<close>.\<close>

definition fetch_keeps :: "('t, 'c, 'r) transformers \<Rightarrow> path \<Rightarrow> bool" where
  "fetch_keeps T p \<longleftrightarrow>
     (\<forall>n w. files (snd (AutoTokenizer_from_pretrained T n w)) p = files w p) \<and>
     (\<forall>n w. files (snd (AutoConfig_from_pretrained T n w)) p = files w p)"

text \<open>A save changes nothing outside its destination directory.\<close>

definition saves_write_under :: "('t, 'c, 'r) transformers \<Rightarrow> bool" where
  "saves_write_under T \<longleftrightarrow>
     (\<forall>t d w p. \<not> under d p \<longrightarrow>
        files (snd (tokenizer_save_pretrained T t d w)) p = files w p) \<and>
     (\<forall>c d w p. \<not> under d p \<longrightarrow>
        files (snd (config_save_pretrained T c d w)) p = files w p)"

text \<open>A save that returns leaves its destination directory in existence.\<close>

definition saves_create_directory :: "('t, 'c, 'r) transformers \<Rightarrow> bool" where
  "saves_create_directory T \<longleftrightarrow>
     (\<forall>t d w w'. tokenizer_save_pretrained T t d w = (Inr (), w') \<longrightarrow>
        files w' d = Some Directory) \<and>
     (\<forall>c d w w'. config_save_pretrained T c d w = (Inr (), w') \<longrightarrow>
        files w' d = Some Directory)"




text \<open>
  The library answers the same on every run: whether a call returns or raises, and what it
  returns, does not depend on the state of the world it is made in.
\<close>

definition same_each_run :: "('t, 'c, 'r) transformers \<Rightarrow> bool" where
  "same_each_run T \<longleftrightarrow>
     (\<forall>n w w'. fst (AutoTokenizer_from_pretrained T n w) =
        fst (AutoTokenizer_from_pretrained T n w')) \<and>
     (\<forall>n w w'. fst (AutoConfig_from_pretrained T n w) =
        fst (AutoConfig_from_pretrained T n w')) \<and>
     (\<forall>t d w w'. fst (tokenizer_save_pretrained T t d w) =
        fst (tokenizer_save_pretrained T t d w')) \<and>
     (\<forall>c d w w'. fst (config_save_pretrained T c d w) =
        fst (config_save_pretrained T c d w'))"



text \<open>
  A fetch failed in the run from \<open>w\<close>: the tokenizer fetch raised, or it returned and the
  config fetch raised.
\<close>

definition fetch_fails :: "('t, 'c, 'r) transformers \<Rightarrow> 'r world \<Rightarrow> bool" where
  "fetch_fails T w =
     (case AutoTokenizer_from_pretrained T model_name w of
        (Inl _, _) \<Rightarrow> True
      | (Inr _, w1) \<Rightarrow>
          (case AutoConfig_from_pretrained T model_name w1 of
             (Inl _, _) \<Rightarrow> True
           | (Inr _, _) \<Rightarrow> False))"



section \<open>What a trace of calls means\<close>

text \<open>
  The library's own answer to one call: the exception it raises, if any, and the world it
  leaves.
\<close>

fun answer ::
  "('t, 'c, 'r) transformers \<Rightarrow> ('t, 'c) call \<Rightarrow> 'r world \<Rightarrow> py_exception option \<times> 'r world"
  where
  "answer T (FetchTokenizer n) w =
     (outcome (fst (AutoTokenizer_from_pretrained T n w)),
      snd (AutoTokenizer_from_pretrained T n w))"
| "answer T (FetchConfig n) w =
     (outcome (fst (AutoConfig_from_pretrained T n w)),
      snd (AutoConfig_from_pretrained T n w))"
| "answer T (SaveTokenizer t d) w =
     (outcome (fst (tokenizer_save_pretrained T t d w)),
      snd (tokenizer_save_pretrained T t d w))"
| "answer T (SaveConfig c d) w =
     (outcome (fst (config_save_pretrained T c d w)),
      snd (config_save_pretrained T c d w))"

text \<open>
  Making a list of calls to the library, one after the other from the world \<open>w\<close>: the calls
  with the library's answers, and the world after the last. A trace of the script is
  truthful when replaying its calls gives back the trace and the final world of the run:
  then the calls it lists, with the arguments it lists, are the calls that were made.
\<close>

fun replay ::
  "('t, 'c, 'r) transformers \<Rightarrow> ('t, 'c) call list \<Rightarrow> 'r world \<Rightarrow>
     (('t, 'c) call \<times> py_exception option) list \<times> 'r world" where
  "replay T [] w = ([], w)"
| "replay T (c # cs) w =
     (case answer T c w of
        (out, w') \<Rightarrow> (case replay T cs w' of (tr, w'') \<Rightarrow> ((c, out) # tr, w'')))"


section \<open>Test doubles for the library\<close>

text \<open>A world with no file in it, and one with a file of the user's.\<close>

definition empty_world :: "unit world" where
  "empty_world = \<lparr>files = Map.empty, remote = ()\<rparr>"

definition home_world :: "unit world" where
  "home_world = \<lparr>files = [''./notes.txt'' \<mapsto> File ''keep''], remote = ()\<rparr>"

text \<open>Objects are strings; one serialises to its directory and a single file in it.\<close>

definition tokenizer_files :: "string \<Rightarrow> path \<Rightarrow> filesystem" where
  "tokenizer_files t dir = [dir \<mapsto> Directory, dir @ ''/tokenizer.model'' \<mapsto> File t]"

definition config_files :: "string \<Rightarrow> path \<Rightarrow> filesystem" where
  "config_files c dir = [dir \<mapsto> Directory, dir @ ''/config.json'' \<mapsto> File c]"

text \<open>A hub that knows the one model.\<close>

definition mock_hub :: "(string, string, unit) transformers" where
  "mock_hub = \<lparr>
     AutoTokenizer_from_pretrained = (\<lambda>name w.
       if name = ''meta-llama/Llama-2-7b-hf'' then (Inr ''llama vocabulary'', w)
       else (Inl (PyException ''not found''), w)),
     AutoConfig_from_pretrained = (\<lambda>name w.
       if name = ''meta-llama/Llama-2-7b-hf'' then (Inr ''llama hyperparameters'', w)
       else (Inl (PyException ''not found''), w)),
     tokenizer_save_pretrained = (\<lambda>t dir w.
       (Inr (), w\<lparr>files := files w ++ tokenizer_files t dir\<rparr>)),
     config_save_pretrained = (\<lambda>c dir w.
       (Inr (), w\<lparr>files := files w ++ config_files c dir\<rparr>))\<rparr>"

text \<open>The same hub when it does not know the model: both fetches raise.\<close>

definition hub_not_found :: "(string, string, unit) transformers" where
  "hub_not_found = mock_hub\<lparr>
     AutoTokenizer_from_pretrained := (\<lambda>name w. (Inl (PyException ''not found''), w)),
     AutoConfig_from_pretrained := (\<lambda>name w. (Inl (PyException ''not found''), w))\<rparr>"

text \<open>The same hub with the tokenizer missing: only the tokenizer fetch raises.\<close>

definition hub_without_tokenizer :: "(string, string, unit) transformers" where
  "hub_without_tokenizer = mock_hub\<lparr>
     AutoTokenizer_from_pretrained := (\<lambda>name w. (Inl (PyException ''not found''), w))\<rparr>"

text \<open>The same hub with the config missing: the tokenizer fetch returns, the config fetch raises.\<close>

definition hub_without_config :: "(string, string, unit) transformers" where
  "hub_without_config = mock_hub\<lparr>
     AutoConfig_from_pretrained := (\<lambda>name w. (Inl (PyException ''not found''), w))\<rparr>"

text \<open>The same hub when the tokenizer cannot be written: the tokenizer save raises.\<close>

definition hub_tokenizer_unwritable :: "(string, string, unit) transformers" where
  "hub_tokenizer_unwritable = mock_hub\<lparr>
     tokenizer_save_pretrained := (\<lambda>t dir w. (Inl (PyException ''permission denied''), w))\<rparr>"

text \<open>The same hub with another tokenizer, saved under another file name.\<close>

definition hub_other_tokenizer :: "(string, string, unit) transformers" where
  "hub_other_tokenizer = mock_hub\<lparr>
     AutoTokenizer_from_pretrained := (\<lambda>name w. (Inr ''another vocabulary'', w)),
     tokenizer_save_pretrained := (\<lambda>t dir w.
       (Inr (), w\<lparr>files := (files w)(dir \<mapsto> Directory,
                                   dir @ ''/vocab.json'' \<mapsto> File t)\<rparr>))\<rparr>"

text \<open>The same hub with another config.\<close>

definition hub_other_config :: "(string, string, unit) transformers" where
  "hub_other_config = mock_hub\<lparr>
     AutoConfig_from_pretrained := (\<lambda>name w. (Inr ''other hyperparameters'', w))\<rparr>"

text \<open>A hub that answers for every identifier as \<open>mock_hub\<close> does for the one.\<close>

definition hub_any_name :: "(string, string, unit) transformers" where
  "hub_any_name = mock_hub\<lparr>
     AutoTokenizer_from_pretrained := (\<lambda>name w. (Inr ''llama vocabulary'', w)),
     AutoConfig_from_pretrained := (\<lambda>name w. (Inr ''llama hyperparameters'', w))\<rparr>"

text \<open>The same hub when the config cannot be written: the config save raises.\<close>

definition hub_config_unwritable :: "(string, string, unit) transformers" where
  "hub_config_unwritable = mock_hub\<lparr>
     config_save_pretrained := (\<lambda>c dir w. (Inl (PyException ''permission denied''), w))\<rparr>"

text \<open>
  The same hub with a cache of its own: every tokenizer fetch adds a mark to a log kept
  outside the two output directories.
\<close>

definition cache_hub :: "(string, string, unit) transformers" where
  "cache_hub = mock_hub\<lparr>
     AutoTokenizer_from_pretrained := (\<lambda>name w.
       (Inr ''llama vocabulary'',
        w\<lparr>files := (files w)(''./cache/log'' \<mapsto>
           File (case files w ''./cache/log'' of
                   Some (File s) \<Rightarrow> s @ ''+''
                 | _ \<Rightarrow> ''+''))\<rparr>))\<rparr>"


section \<open>The shape of a run\<close>

lemmas script_defs = run_def install_model_def py_then_def from_pretrained_tokenizer_def
  from_pretrained_config_def save_pretrained_tokenizer_def save_pretrained_config_def
  perform_def outcome_def

lemmas run_defs = calls_def final_def exit_status_def exit_code_def

text \<open>What the run is, given how the library answers the calls the script makes.\<close>

lemma run_tokenizer_fetch_raises:
  "AutoTokenizer_from_pretrained T model_name w = (Inl e, w1) \<Longrightarrow>
   run T w = (Inl e, \<lparr>the_world = w1, trace = [(FetchTokenizer model_name, Some e)]\<rparr>)"
  by (simp add: script_defs)

lemma run_config_fetch_raises:
  "AutoTokenizer_from_pretrained T model_name w = (Inr t, w1) \<Longrightarrow>
   AutoConfig_from_pretrained T model_name w1 = (Inl e, w2) \<Longrightarrow>
   run T w = (Inl e, \<lparr>the_world = w2,
     trace = [(FetchTokenizer model_name, None), (FetchConfig model_name, Some e)]\<rparr>)"
  by (simp add: script_defs)

lemma run_tokenizer_save_raises:
  "AutoTokenizer_from_pretrained T model_name w = (Inr t, w1) \<Longrightarrow>
   AutoConfig_from_pretrained T model_name w1 = (Inr c, w2) \<Longrightarrow>
   tokenizer_save_pretrained T t ''./llama2_tokenizer'' w2 = (Inl e, w3) \<Longrightarrow>
   run T w = (Inl e, \<lparr>the_world = w3,
     trace = [(FetchTokenizer model_name, None), (FetchConfig model_name, None),
              (SaveTokenizer t ''./llama2_tokenizer'', Some e)]\<rparr>)"
  by (simp add: script_defs)

lemma run_config_save:
  "AutoTokenizer_from_pretrained T model_name w = (Inr t, w1) \<Longrightarrow>
   AutoConfig_from_pretrained T model_name w1 = (Inr c, w2) \<Longrightarrow>
   tokenizer_save_pretrained T t ''./llama2_tokenizer'' w2 = (Inr (), w3) \<Longrightarrow>
   config_save_pretrained T c ''./llama2_config'' w3 = (r, w4) \<Longrightarrow>
   run T w = (r, \<lparr>the_world = w4,
     trace = [(FetchTokenizer model_name, None), (FetchConfig model_name, None),
              (SaveTokenizer t ''./llama2_tokenizer'', None),
              (SaveConfig c ''./llama2_config'', outcome r)]\<rparr>)"
  by (simp add: script_defs)

text \<open>
  A run ends in one of five ways: at the first, second, third or fourth call, which raised,
  or after the fourth call returned.
\<close>

lemma run_cases [case_names tokenizer_fetch_raises config_fetch_raises
    tokenizer_save_raises config_save_raises all_return]:
  fixes T :: "('t, 'c, 'r) transformers"
  obtains
    e w1 where
      "AutoTokenizer_from_pretrained T model_name w = (Inl e, w1)"
      "run T w = (Inl e, \<lparr>the_world = w1, trace = [(FetchTokenizer model_name, Some e)]\<rparr>)"
  | t w1 e w2 where
      "AutoTokenizer_from_pretrained T model_name w = (Inr t, w1)"
      "AutoConfig_from_pretrained T model_name w1 = (Inl e, w2)"
      "run T w = (Inl e, \<lparr>the_world = w2,
         trace = [(FetchTokenizer model_name, None), (FetchConfig model_name, Some e)]\<rparr>)"
  | t w1 c w2 e w3 where
      "AutoTokenizer_from_pretrained T model_name w = (Inr t, w1)"
      "AutoConfig_from_pretrained T model_name w1 = (Inr c, w2)"
      "tokenizer_save_pretrained T t ''./llama2_tokenizer'' w2 = (Inl e, w3)"
      "run T w = (Inl e, \<lparr>the_world = w3,
         trace = [(FetchTokenizer model_name, None), (FetchConfig model_name, None),
                  (SaveTokenizer t ''./llama2_tokenizer'', Some e)]\<rparr>)"
  | t w1 c w2 w3 e w4 where
      "AutoTokenizer_from_pretrained T model_name w = (Inr t, w1)"
      "AutoConfig_from_pretrained T model_name w1 = (Inr c, w2)"
      "tokenizer_save_pretrained T t ''./llama2_tokenizer'' w2 = (Inr (), w3)"
      "config_save_pretrained T c ''./llama2_config'' w3 = (Inl e, w4)"
      "run T w = (Inl e, \<lparr>the_world = w4,
         trace = [(FetchTokenizer model_name, None), (FetchConfig model_name, None),
                  (SaveTokenizer t ''./llama2_tokenizer'', None),
                  (SaveConfig c ''./llama2_config'', Some e)]\<rparr>)"
  | t w1 c w2 w3 w4 where
      "AutoTokenizer_from_pretrained T model_name w = (Inr t, w1)"
      "AutoConfig_from_pretrained T model_name w1 = (Inr c, w2)"
      "tokenizer_save_pretrained T t ''./llama2_tokenizer'' w2 = (Inr (), w3)"
      "config_save_pretrained T c ''./llama2_config'' w3 = (Inr (), w4)"
      "run T w = (Inr (), \<lparr>the_world = w4,
         trace = [(FetchTokenizer model_name, None), (FetchConfig model_name, None),
                  (SaveTokenizer t ''./llama2_tokenizer'', None),
                  (SaveConfig c ''./llama2_config'', None)]\<rparr>)"
proof -
  obtain r1 w1 where f1: "AutoTokenizer_from_pretrained T model_name w = (r1, w1)"
    by (cases "AutoTokenizer_from_pretrained T model_name w")
  show thesis
  proof (cases r1)
    case (Inl e)
    with f1 have f1: "AutoTokenizer_from_pretrained T model_name w = (Inl e, w1)"
      by simp
    show thesis
      by (rule that(1) [OF f1 run_tokenizer_fetch_raises [OF f1]])
  next
    case (Inr t)
    with f1 have f1: "AutoTokenizer_from_pretrained T model_name w = (Inr t, w1)"
      by simp
    obtain r2 w2 where f2: "AutoConfig_from_pretrained T model_name w1 = (r2, w2)"
      by (cases "AutoConfig_from_pretrained T model_name w1")
    show thesis
    proof (cases r2)
      case (Inl e)
      with f2 have f2: "AutoConfig_from_pretrained T model_name w1 = (Inl e, w2)"
        by simp
      show thesis
        by (rule that(2) [OF f1 f2 run_config_fetch_raises [OF f1 f2]])
    next
      case (Inr c)
      with f2 have f2: "AutoConfig_from_pretrained T model_name w1 = (Inr c, w2)"
        by simp
      obtain r3 w3 where
        f3: "tokenizer_save_pretrained T t ''./llama2_tokenizer'' w2 = (r3, w3)"
        by (cases "tokenizer_save_pretrained T t ''./llama2_tokenizer'' w2")
      show thesis
      proof (cases r3)
        case (Inl e)
        with f3 have f3: "tokenizer_save_pretrained T t ''./llama2_tokenizer'' w2 = (Inl e, w3)"
          by simp
        show thesis
          by (rule that(3) [OF f1 f2 f3 run_tokenizer_save_raises [OF f1 f2 f3]])
      next
        case (Inr u)
        with f3 have f3: "tokenizer_save_pretrained T t ''./llama2_tokenizer'' w2 = (Inr (), w3)"
          by simp
        obtain r4 w4 where
          f4: "config_save_pretrained T c ''./llama2_config'' w3 = (r4, w4)"
          by (cases "config_save_pretrained T c ''./llama2_config'' w3")
        show thesis
        proof (cases r4)
          case (Inl e)
          with f4 have f4: "config_save_pretrained T c ''./llama2_config'' w3 = (Inl e, w4)"
            by simp
          from run_config_save [OF f1 f2 f3 f4] show thesis
            by (intro that(4) [OF f1 f2 f3 f4]) (simp add: outcome_def)
        next
          case (Inr u')
          with f4 have f4: "config_save_pretrained T c ''./llama2_config'' w3 = (Inr (), w4)"
            by simp
          from run_config_save [OF f1 f2 f3 f4] show thesis
            by (intro that(5) [OF f1 f2 f3 f4]) (simp add: outcome_def)
        qed
      qed
    qed
  qed
qed

section \<open>Facts about the contract\<close>

lemma fetch_keeps_tokenizer:
  "fetch_keeps T p \<Longrightarrow> AutoTokenizer_from_pretrained T n w = (r, w') \<Longrightarrow>
     files w' p = files w p"
  unfolding fetch_keeps_def by (metis snd_conv)

lemma fetch_keeps_config:
  "fetch_keeps T p \<Longrightarrow> AutoConfig_from_pretrained T n w = (r, w') \<Longrightarrow>
     files w' p = files w p"
  unfolding fetch_keeps_def by (metis snd_conv)

lemma fetch_keeps_all_tokenizer:
  "\<forall>p. fetch_keeps T p \<Longrightarrow> AutoTokenizer_from_pretrained T n w = (r, w') \<Longrightarrow>
     files w' = files w"
  using fetch_keeps_tokenizer [of T _ n w r w'] by (auto simp add: fun_eq_iff)

lemma fetch_keeps_all_config:
  "\<forall>p. fetch_keeps T p \<Longrightarrow> AutoConfig_from_pretrained T n w = (r, w') \<Longrightarrow>
     files w' = files w"
  using fetch_keeps_config [of T _ n w r w'] by (auto simp add: fun_eq_iff)

lemma saves_write_under_tokenizer:
  "saves_write_under T \<Longrightarrow> tokenizer_save_pretrained T t d w = (r, w') \<Longrightarrow> \<not> under d p \<Longrightarrow>
     files w' p = files w p"
  unfolding saves_write_under_def by (metis snd_conv)

lemma saves_write_under_config:
  "saves_write_under T \<Longrightarrow> config_save_pretrained T c d w = (r, w') \<Longrightarrow> \<not> under d p \<Longrightarrow>
     files w' p = files w p"
  unfolding saves_write_under_def by (metis snd_conv)



lemma same_each_run_tokenizer_fetch:
  "same_each_run T \<Longrightarrow> AutoTokenizer_from_pretrained T n w = (r, w1) \<Longrightarrow>
     AutoTokenizer_from_pretrained T n v = (r', v1) \<Longrightarrow> r' = r"
  unfolding same_each_run_def by (metis fst_conv)

lemma same_each_run_config_fetch:
  "same_each_run T \<Longrightarrow> AutoConfig_from_pretrained T n w = (r, w1) \<Longrightarrow>
     AutoConfig_from_pretrained T n v = (r', v1) \<Longrightarrow> r' = r"
  unfolding same_each_run_def by (metis fst_conv)

lemma same_each_run_tokenizer_save:
  "same_each_run T \<Longrightarrow> tokenizer_save_pretrained T t d w = (r, w1) \<Longrightarrow>
     tokenizer_save_pretrained T t d v = (r', v1) \<Longrightarrow> r' = r"
  unfolding same_each_run_def by (metis fst_conv)

lemma same_each_run_config_save:
  "same_each_run T \<Longrightarrow> config_save_pretrained T c d w = (r, w1) \<Longrightarrow>
     config_save_pretrained T c d v = (r', v1) \<Longrightarrow> r' = r"
  unfolding same_each_run_def by (metis fst_conv)


section \<open>The test doubles at work\<close>

lemmas hub_defs = mock_hub_def hub_not_found_def hub_without_tokenizer_def
  hub_without_config_def hub_tokenizer_unwritable_def hub_other_tokenizer_def
  hub_other_config_def hub_any_name_def

lemma mock_hub_run:
  "run mock_hub w =
     (Inr (), \<lparr>the_world = w\<lparr>files := files w
          ++ tokenizer_files ''llama vocabulary'' ''./llama2_tokenizer''
          ++ config_files ''llama hyperparameters'' ''./llama2_config''\<rparr>,
        trace = [(FetchTokenizer ''meta-llama/Llama-2-7b-hf'', None),
                 (FetchConfig ''meta-llama/Llama-2-7b-hf'', None),
                 (SaveTokenizer ''llama vocabulary'' ''./llama2_tokenizer'', None),
                 (SaveConfig ''llama hyperparameters'' ''./llama2_config'', None)]\<rparr>)"
  by (simp add: script_defs mock_hub_def model_name_def)

lemma hub_any_name_run:
  "run hub_any_name w = run mock_hub w"
  by (simp add: script_defs hub_defs model_name_def)

lemma hub_not_found_run:
  "run hub_not_found w =
     (Inl (PyException ''not found''), \<lparr>the_world = w,
        trace = [(FetchTokenizer ''meta-llama/Llama-2-7b-hf'',
                  Some (PyException ''not found''))]\<rparr>)"
  by (simp add: script_defs hub_defs model_name_def)


lemma hub_without_config_run:
  "run hub_without_config w =
     (Inl (PyException ''not found''), \<lparr>the_world = w,
        trace = [(FetchTokenizer ''meta-llama/Llama-2-7b-hf'', None),
                 (FetchConfig ''meta-llama/Llama-2-7b-hf'',
                  Some (PyException ''not found''))]\<rparr>)"
  by (simp add: script_defs hub_defs model_name_def)




lemma doubles_fetch_keeps:
  "fetch_keeps mock_hub p" "fetch_keeps hub_not_found p" "fetch_keeps hub_without_config p"
  "fetch_keeps hub_other_tokenizer p" "fetch_keeps hub_other_config p"
  by (simp_all add: fetch_keeps_def hub_defs)

lemma under_file: "under d (d @ ''/'' @ name)"
  by (simp add: under_def)

lemma doubles_write_under:
  "saves_write_under mock_hub" "saves_write_under hub_other_config"
  "saves_write_under hub_other_tokenizer"
  using under_file [of _ "''tokenizer.model''"] under_file [of _ "''config.json''"]
    under_file [of _ "''vocab.json''"]
  by (auto simp add: saves_write_under_def hub_defs tokenizer_files_def config_files_def
      under_def)

lemma mock_hub_creates_directory: "saves_create_directory mock_hub"
  by (auto simp add: saves_create_directory_def hub_defs tokenizer_files_def config_files_def)




section \<open>The trace is truthful\<close>

text \<open>
  Replaying the calls a run lists, against the library and from the initial world, gives
  the outcomes the run lists and the world the run ends in.
\<close>

lemma replay_run:
  fixes T :: "('t, 'c, 'r) transformers"
  shows "replay T (map fst (calls T w)) w = (calls T w, final T w)"
  by (cases T w rule: run_cases) (simp_all add: run_defs outcome_def)






text \<open>More of the test doubles.\<close>

lemmas more_hub_defs = hub_config_unwritable_def cache_hub_def

lemma hub_config_unwritable_run:
  "run hub_config_unwritable w =
     (Inl (PyException ''permission denied''),
      \<lparr>the_world = w\<lparr>files := files w
          ++ tokenizer_files ''llama vocabulary'' ''./llama2_tokenizer''\<rparr>,
        trace = [(FetchTokenizer ''meta-llama/Llama-2-7b-hf'', None),
                 (FetchConfig ''meta-llama/Llama-2-7b-hf'', None),
                 (SaveTokenizer ''llama vocabulary'' ''./llama2_tokenizer'', None),
                 (SaveConfig ''llama hyperparameters'' ''./llama2_config'',
                  Some (PyException ''permission denied''))]\<rparr>)"
  by (simp add: script_defs hub_defs more_hub_defs model_name_def)




section \<open>Runs with the same answers\<close>





section \<open>The order of the calls\<close>

text \<open>
  Claim C1 as the spec has it: every run makes exactly the four calls. It fails on a run in
  which a call raises: with a hub that does not know the model the run makes one call, the
  tokenizer fetch, and the other three are skipped.
\<close>

theorem every_run_makes_four_calls_counterexample:
  "calls hub_not_found empty_world =
     [(FetchTokenizer ''meta-llama/Llama-2-7b-hf'', Some (PyException ''not found''))] \<and>
   length (calls hub_not_found empty_world) \<noteq> 4"
  by (simp add: calls_def hub_not_found_run)

text \<open>
  Claim C1, amended: the calls of a run are an initial segment of the fixed sequence
  fetch tokenizer, fetch config, save tokenizer, save config, each with the script's
  arguments, so none is repeated or out of order; at least one call is made; a call that
  raises is the last call of the run, so the calls after it are skipped; and when no call
  of the run raised, the run made exactly these four calls in this order. The objects
  saved are the ones the two fetches returned, and the trace is truthful: the calls it
  lists are the calls made to the library, and the run ends in the world they leave.
\<close>

theorem call_order:
  fixes T :: "('t, 'c, 'r) transformers"
  shows "\<exists>t c. prefix (map fst (calls T w))
            [FetchTokenizer model_name, FetchConfig model_name,
             SaveTokenizer t ''./llama2_tokenizer'', SaveConfig c ''./llama2_config''] \<and>
          calls T w \<noteq> [] \<and>
          list_all (\<lambda>x. snd x = None) (butlast (calls T w)) \<and>
          (list_all (\<lambda>x. snd x = None) (calls T w) \<longrightarrow>
             map fst (calls T w) =
               [FetchTokenizer model_name, FetchConfig model_name,
                SaveTokenizer t ''./llama2_tokenizer'', SaveConfig c ''./llama2_config'']) \<and>
          (2 < length (calls T w) \<longrightarrow>
             fst (AutoTokenizer_from_pretrained T model_name w) = Inr t \<and>
             fst (AutoConfig_from_pretrained T model_name
                    (snd (AutoTokenizer_from_pretrained T model_name w))) = Inr c) \<and>
          replay T (map fst (calls T w)) w = (calls T w, final T w)"
proof (cases T w rule: run_cases)
  case (tokenizer_fetch_raises e w1)
  then show ?thesis by (simp add: run_defs outcome_def)
next
  case (config_fetch_raises t w1 e w2)
  then show ?thesis by (simp add: run_defs outcome_def)
next
  case (tokenizer_save_raises t w1 c w2 e w3)
  then show ?thesis by (intro exI [of _ t] exI [of _ c]) (simp add: run_defs outcome_def)
next
  case (config_save_raises t w1 c w2 w3 e w4)
  then show ?thesis by (intro exI [of _ t] exI [of _ c]) (simp add: run_defs outcome_def)
next
  case (all_return t w1 c w2 w3 w4)
  then show ?thesis by (intro exI [of _ t] exI [of _ c]) (simp add: run_defs outcome_def)
qed

theorem call_order_witness:
  "list_all (\<lambda>x. snd x = None) (calls mock_hub home_world) \<and>
   2 < length (calls mock_hub home_world) \<and>
   map fst (calls mock_hub home_world) =
     [FetchTokenizer model_name, FetchConfig model_name,
      SaveTokenizer ''llama vocabulary'' ''./llama2_tokenizer'',
      SaveConfig ''llama hyperparameters'' ''./llama2_config''] \<and>
   replay mock_hub (map fst (calls mock_hub home_world)) home_world =
     (calls mock_hub home_world, final mock_hub home_world) \<and>
   files (final mock_hub home_world) ''./llama2_tokenizer/tokenizer.model'' =
     Some (File ''llama vocabulary'') \<and>
   files (final mock_hub home_world) ''./llama2_config/config.json'' =
     Some (File ''llama hyperparameters'') \<and>
   calls hub_without_config home_world =
     [(FetchTokenizer model_name, None),
      (FetchConfig model_name, Some (PyException ''not found''))] \<and>
   list_all (\<lambda>x. snd x = None) (butlast (calls hub_without_config home_world)) \<and>
   replay hub_without_config (map fst (calls hub_without_config home_world)) home_world =
     (calls hub_without_config home_world, final hub_without_config home_world) \<and>
   final hub_without_config home_world = home_world"
proof -
  have h: "list_all (\<lambda>x. snd x = None) (calls mock_hub home_world)"
    and l: "2 < length (calls mock_hub home_world)"
    by (simp_all add: calls_def mock_hub_run)
  from call_order [of mock_hub home_world] h l obtain t c where
    plan: "map fst (calls mock_hub home_world) =
       [FetchTokenizer model_name, FetchConfig model_name,
        SaveTokenizer t ''./llama2_tokenizer'', SaveConfig c ''./llama2_config'']"
    and t: "fst (AutoTokenizer_from_pretrained mock_hub model_name home_world) = Inr t"
    and c: "fst (AutoConfig_from_pretrained mock_hub model_name
         (snd (AutoTokenizer_from_pretrained mock_hub model_name home_world))) = Inr c"
    and truthful: "replay mock_hub (map fst (calls mock_hub home_world)) home_world =
       (calls mock_hub home_world, final mock_hub home_world)"
    by (elim exE conjE) simp
  from t c have "t = ''llama vocabulary''" "c = ''llama hyperparameters''"
    by (simp_all add: hub_defs model_name_def)
  with plan have plan': "map fst (calls mock_hub home_world) =
      [FetchTokenizer model_name, FetchConfig model_name,
       SaveTokenizer ''llama vocabulary'' ''./llama2_tokenizer'',
       SaveConfig ''llama hyperparameters'' ''./llama2_config'']"
    by simp
  from truthful have "final mock_hub home_world =
      snd (replay mock_hub (map fst (calls mock_hub home_world)) home_world)"
    by simp
  then have written:
    "files (final mock_hub home_world) ''./llama2_tokenizer/tokenizer.model'' =
       Some (File ''llama vocabulary'')"
    "files (final mock_hub home_world) ''./llama2_config/config.json'' =
       Some (File ''llama hyperparameters'')"
    unfolding plan'
    by (simp_all add: hub_defs model_name_def tokenizer_files_def config_files_def)
  from call_order [of hub_without_config home_world] have raised:
    "list_all (\<lambda>x. snd x = None) (butlast (calls hub_without_config home_world)) \<and>
     replay hub_without_config (map fst (calls hub_without_config home_world)) home_world =
       (calls hub_without_config home_world, final hub_without_config home_world)"
    by (elim exE conjE) simp
  have stopped: "calls hub_without_config home_world =
      [(FetchTokenizer model_name, None),
       (FetchConfig model_name, Some (PyException ''not found''))]"
    by (simp add: calls_def hub_without_config_run model_name_def)
  from raised have "final hub_without_config home_world =
      snd (replay hub_without_config (map fst (calls hub_without_config home_world)) home_world)"
    by simp
  then have unchanged: "final hub_without_config home_world = home_world"
    unfolding stopped by (simp add: hub_defs model_name_def)
  from h l plan' truthful written stopped raised unchanged show ?thesis
    by simp
qed

section \<open>The arguments of the calls\<close>



text \<open>
  Claim C3: the identifier is the literal \<open>meta-llama/Llama-2-7b-hf\<close>, and it is the argument
  of every fetch a run makes; every tokenizer save goes to \<open>./llama2_tokenizer\<close> and every
  config save to \<open>./llama2_config\<close>; the calls listed are the calls made to the library, so
  these are the arguments the library receives; when the library's fetches for the
  literal identifier and its saves to the two literal paths return, the run ends in the
  world the save to \<open>./llama2_config\<close> leaves, after the save to \<open>./llama2_tokenizer\<close>; the
  two paths differ, and neither lies under the other.
\<close>

theorem literal_arguments:
  fixes T :: "('t, 'c, 'r) transformers"
  shows "model_name = ''meta-llama/Llama-2-7b-hf'' \<and>
    (\<forall>n r. (FetchTokenizer n, r) \<in> set (calls T w) \<longrightarrow> n = ''meta-llama/Llama-2-7b-hf'') \<and>
    (\<forall>n r. (FetchConfig n, r) \<in> set (calls T w) \<longrightarrow> n = ''meta-llama/Llama-2-7b-hf'') \<and>
    (\<forall>t d r. (SaveTokenizer t d, r) \<in> set (calls T w) \<longrightarrow> d = ''./llama2_tokenizer'') \<and>
    (\<forall>c d r. (SaveConfig c d, r) \<in> set (calls T w) \<longrightarrow> d = ''./llama2_config'') \<and>
    replay T (map fst (calls T w)) w = (calls T w, final T w) \<and>
    (\<forall>t w1 c w2 w3 w4.
       AutoTokenizer_from_pretrained T ''meta-llama/Llama-2-7b-hf'' w = (Inr t, w1) \<and>
       AutoConfig_from_pretrained T ''meta-llama/Llama-2-7b-hf'' w1 = (Inr c, w2) \<and>
       tokenizer_save_pretrained T t ''./llama2_tokenizer'' w2 = (Inr (), w3) \<and>
       config_save_pretrained T c ''./llama2_config'' w3 = (Inr (), w4) \<longrightarrow>
       calls T w =
         [(FetchTokenizer ''meta-llama/Llama-2-7b-hf'', None),
          (FetchConfig ''meta-llama/Llama-2-7b-hf'', None),
          (SaveTokenizer t ''./llama2_tokenizer'', None),
          (SaveConfig c ''./llama2_config'', None)] \<and>
       final T w = w4) \<and>
    ''./llama2_tokenizer'' \<noteq> ''./llama2_config'' \<and>
    \<not> under ''./llama2_tokenizer'' ''./llama2_config'' \<and>
    \<not> under ''./llama2_config'' ''./llama2_tokenizer''"
proof -
  have name: "model_name = ''meta-llama/Llama-2-7b-hf''"
    by (simp add: model_name_def)
  have apart: "''./llama2_tokenizer'' \<noteq> ''./llama2_config''"
    "\<not> under ''./llama2_tokenizer'' ''./llama2_config''"
    "\<not> under ''./llama2_config'' ''./llama2_tokenizer''"
    by (simp_all add: under_def)
  have labels:
    "(\<forall>n r. (FetchTokenizer n, r) \<in> set (calls T w) \<longrightarrow> n = model_name) \<and>
     (\<forall>n r. (FetchConfig n, r) \<in> set (calls T w) \<longrightarrow> n = model_name) \<and>
     (\<forall>t d r. (SaveTokenizer t d, r) \<in> set (calls T w) \<longrightarrow> d = ''./llama2_tokenizer'') \<and>
     (\<forall>c d r. (SaveConfig c d, r) \<in> set (calls T w) \<longrightarrow> d = ''./llama2_config'')"
    by (cases T w rule: run_cases) (auto simp add: calls_def)
  have truthful: "replay T (map fst (calls T w)) w = (calls T w, final T w)"
    by (rule replay_run)
  have success: "calls T w =
      [(FetchTokenizer model_name, None), (FetchConfig model_name, None),
       (SaveTokenizer t ''./llama2_tokenizer'', None),
       (SaveConfig c ''./llama2_config'', None)] \<and> final T w = w4"
    if "AutoTokenizer_from_pretrained T model_name w = (Inr t, w1)"
      and "AutoConfig_from_pretrained T model_name w1 = (Inr c, w2)"
      and "tokenizer_save_pretrained T t ''./llama2_tokenizer'' w2 = (Inr (), w3)"
      and "config_save_pretrained T c ''./llama2_config'' w3 = (Inr (), w4)"
    for t w1 c w2 w3 w4
    using run_config_save [OF that] by (simp add: run_defs outcome_def)
  from name apart labels truthful success show ?thesis
    by (simp only: name [symmetric]) blast
qed

theorem literal_arguments_witness:
  "AutoTokenizer_from_pretrained mock_hub ''meta-llama/Llama-2-7b-hf'' home_world =
     (Inr ''llama vocabulary'', home_world) \<and>
   AutoConfig_from_pretrained mock_hub ''meta-llama/Llama-2-7b-hf'' home_world =
     (Inr ''llama hyperparameters'', home_world) \<and>
   tokenizer_save_pretrained mock_hub ''llama vocabulary'' ''./llama2_tokenizer'' home_world =
     (Inr (), home_world\<lparr>files := files home_world
        ++ tokenizer_files ''llama vocabulary'' ''./llama2_tokenizer''\<rparr>) \<and>
   config_save_pretrained mock_hub ''llama hyperparameters'' ''./llama2_config''
       (home_world\<lparr>files := files home_world
          ++ tokenizer_files ''llama vocabulary'' ''./llama2_tokenizer''\<rparr>) =
     (Inr (), home_world\<lparr>files := files home_world
        ++ tokenizer_files ''llama vocabulary'' ''./llama2_tokenizer''
        ++ config_files ''llama hyperparameters'' ''./llama2_config''\<rparr>) \<and>
   calls mock_hub home_world =
     [(FetchTokenizer ''meta-llama/Llama-2-7b-hf'', None),
      (FetchConfig ''meta-llama/Llama-2-7b-hf'', None),
      (SaveTokenizer ''llama vocabulary'' ''./llama2_tokenizer'', None),
      (SaveConfig ''llama hyperparameters'' ''./llama2_config'', None)] \<and>
   final mock_hub home_world =
     home_world\<lparr>files := files home_world
        ++ tokenizer_files ''llama vocabulary'' ''./llama2_tokenizer''
        ++ config_files ''llama hyperparameters'' ''./llama2_config''\<rparr> \<and>
   (FetchTokenizer ''meta-llama/Llama-2-7b-hf'', None) \<in> set (calls mock_hub home_world) \<and>
   (FetchConfig ''meta-llama/Llama-2-7b-hf'', None) \<in> set (calls mock_hub home_world) \<and>
   (SaveTokenizer ''llama vocabulary'' ''./llama2_tokenizer'', None)
      \<in> set (calls mock_hub home_world) \<and>
   (SaveConfig ''llama hyperparameters'' ''./llama2_config'', None)
      \<in> set (calls mock_hub home_world) \<and>
   files (final mock_hub home_world) ''./llama2_tokenizer/tokenizer.model'' =
     Some (File ''llama vocabulary'') \<and>
   files (final mock_hub home_world) ''./llama2_config/config.json'' =
     Some (File ''llama hyperparameters'') \<and>
   files (final mock_hub home_world) ''./notes.txt'' = Some (File ''keep'')"
proof -
  have a1: "AutoTokenizer_from_pretrained mock_hub ''meta-llama/Llama-2-7b-hf'' home_world =
      (Inr ''llama vocabulary'', home_world)"
    and a2: "AutoConfig_from_pretrained mock_hub ''meta-llama/Llama-2-7b-hf'' home_world =
      (Inr ''llama hyperparameters'', home_world)"
    and a3: "tokenizer_save_pretrained mock_hub ''llama vocabulary'' ''./llama2_tokenizer''
        home_world =
      (Inr (), home_world\<lparr>files := files home_world
         ++ tokenizer_files ''llama vocabulary'' ''./llama2_tokenizer''\<rparr>)"
    and a4: "config_save_pretrained mock_hub ''llama hyperparameters'' ''./llama2_config''
        (home_world\<lparr>files := files home_world
           ++ tokenizer_files ''llama vocabulary'' ''./llama2_tokenizer''\<rparr>) =
      (Inr (), home_world\<lparr>files := files home_world
         ++ tokenizer_files ''llama vocabulary'' ''./llama2_tokenizer''
         ++ config_files ''llama hyperparameters'' ''./llama2_config''\<rparr>)"
    by (simp_all add: hub_defs)
  note success = literal_arguments [of mock_hub home_world, THEN conjunct2, THEN conjunct2,
      THEN conjunct2, THEN conjunct2, THEN conjunct2, THEN conjunct2, THEN conjunct1,
      rule_format, OF conjI [OF a1 conjI [OF a2 conjI [OF a3 a4]]]]
  note made = success [THEN conjunct1] and ended = success [THEN conjunct2]
  have listed:
    "(FetchTokenizer ''meta-llama/Llama-2-7b-hf'', None) \<in> set (calls mock_hub home_world)"
    "(FetchConfig ''meta-llama/Llama-2-7b-hf'', None) \<in> set (calls mock_hub home_world)"
    "(SaveTokenizer ''llama vocabulary'' ''./llama2_tokenizer'', None)
       \<in> set (calls mock_hub home_world)"
    "(SaveConfig ''llama hyperparameters'' ''./llama2_config'', None)
       \<in> set (calls mock_hub home_world)"
    unfolding made by simp_all
  have written:
    "files (final mock_hub home_world) ''./llama2_tokenizer/tokenizer.model'' =
       Some (File ''llama vocabulary'')"
    "files (final mock_hub home_world) ''./llama2_config/config.json'' =
       Some (File ''llama hyperparameters'')"
    "files (final mock_hub home_world) ''./notes.txt'' = Some (File ''keep'')"
    unfolding ended
    by (simp_all add: home_world_def tokenizer_files_def config_files_def)
  show ?thesis
    by (intro conjI a1 a2 a3 a4 made ended listed written)
qed

section \<open>Failure\<close>

text \<open>
  Claim C4: the script handles no failure. Whichever of the four library calls is the
  first to raise, the run ends with that very exception, makes no call after it, ends in
  the world that call left and exits with a status other than 0; when all four return,
  the run ends normally in the world the last save left and exits with status 0. So in
  every run each call but the last returned, the run ends with the exception of the last
  call, if it raised, and the exit status is 0 exactly when all four calls were made and
  none raised.
\<close>

theorem no_error_handling:
  fixes T :: "('t, 'c, 'r) transformers"
  shows "(\<forall>e w1.
       AutoTokenizer_from_pretrained T model_name w = (Inl e, w1) \<longrightarrow>
       fst (run T w) = Inl e \<and> exit_status T w \<noteq> 0 \<and> final T w = w1 \<and>
       calls T w = [(FetchTokenizer model_name, Some e)]) \<and>
    (\<forall>t w1 e w2.
       AutoTokenizer_from_pretrained T model_name w = (Inr t, w1) \<and>
       AutoConfig_from_pretrained T model_name w1 = (Inl e, w2) \<longrightarrow>
       fst (run T w) = Inl e \<and> exit_status T w \<noteq> 0 \<and> final T w = w2 \<and>
       calls T w = [(FetchTokenizer model_name, None), (FetchConfig model_name, Some e)]) \<and>
    (\<forall>t w1 c w2 e w3.
       AutoTokenizer_from_pretrained T model_name w = (Inr t, w1) \<and>
       AutoConfig_from_pretrained T model_name w1 = (Inr c, w2) \<and>
       tokenizer_save_pretrained T t ''./llama2_tokenizer'' w2 = (Inl e, w3) \<longrightarrow>
       fst (run T w) = Inl e \<and> exit_status T w \<noteq> 0 \<and> final T w = w3 \<and>
       calls T w = [(FetchTokenizer model_name, None), (FetchConfig model_name, None),
                    (SaveTokenizer t ''./llama2_tokenizer'', Some e)]) \<and>
    (\<forall>t w1 c w2 w3 e w4.
       AutoTokenizer_from_pretrained T model_name w = (Inr t, w1) \<and>
       AutoConfig_from_pretrained T model_name w1 = (Inr c, w2) \<and>
       tokenizer_save_pretrained T t ''./llama2_tokenizer'' w2 = (Inr (), w3) \<and>
       config_save_pretrained T c ''./llama2_config'' w3 = (Inl e, w4) \<longrightarrow>
       fst (run T w) = Inl e \<and> exit_status T w \<noteq> 0 \<and> final T w = w4 \<and>
       calls T w = [(FetchTokenizer model_name, None), (FetchConfig model_name, None),
                    (SaveTokenizer t ''./llama2_tokenizer'', None),
                    (SaveConfig c ''./llama2_config'', Some e)]) \<and>
    (\<forall>t w1 c w2 w3 w4.
       AutoTokenizer_from_pretrained T model_name w = (Inr t, w1) \<and>
       AutoConfig_from_pretrained T model_name w1 = (Inr c, w2) \<and>
       tokenizer_save_pretrained T t ''./llama2_tokenizer'' w2 = (Inr (), w3) \<and>
       config_save_pretrained T c ''./llama2_config'' w3 = (Inr (), w4) \<longrightarrow>
       fst (run T w) = Inr () \<and> exit_status T w = 0 \<and> final T w = w4 \<and>
       calls T w = [(FetchTokenizer model_name, None), (FetchConfig model_name, None),
                    (SaveTokenizer t ''./llama2_tokenizer'', None),
                    (SaveConfig c ''./llama2_config'', None)]) \<and>
    calls T w \<noteq> [] \<and>
    list_all (\<lambda>x. snd x = None) (butlast (calls T w)) \<and>
    fst (run T w) = (case snd (last (calls T w)) of Some e \<Rightarrow> Inl e | None \<Rightarrow> Inr ()) \<and>
    (exit_status T w = 0 \<longleftrightarrow>
       length (calls T w) = 4 \<and> list_all (\<lambda>x. snd x = None) (calls T w)) \<and>
    (exit_status T w \<noteq> 0 \<longleftrightarrow> (\<exists>c e. (c, Some e) \<in> set (calls T w))) \<and>
    (exit_status T w \<noteq> 0 \<longleftrightarrow> (\<exists>e. snd (last (calls T w)) = Some e)) \<and>
    replay T (map fst (calls T w)) w = (calls T w, final T w)"
proof -
  have first: "\<forall>e w1.
       AutoTokenizer_from_pretrained T model_name w = (Inl e, w1) \<longrightarrow>
       fst (run T w) = Inl e \<and> exit_status T w \<noteq> 0 \<and> final T w = w1 \<and>
       calls T w = [(FetchTokenizer model_name, Some e)]"
  proof (intro allI impI)
    fix e w1
    assume "AutoTokenizer_from_pretrained T model_name w = (Inl e, w1)"
    from run_tokenizer_fetch_raises [OF this]
    show "fst (run T w) = Inl e \<and> exit_status T w \<noteq> 0 \<and> final T w = w1 \<and>
        calls T w = [(FetchTokenizer model_name, Some e)]"
      by (simp add: run_defs)
  qed
  have second: "\<forall>t w1 e w2.
       AutoTokenizer_from_pretrained T model_name w = (Inr t, w1) \<and>
       AutoConfig_from_pretrained T model_name w1 = (Inl e, w2) \<longrightarrow>
       fst (run T w) = Inl e \<and> exit_status T w \<noteq> 0 \<and> final T w = w2 \<and>
       calls T w = [(FetchTokenizer model_name, None), (FetchConfig model_name, Some e)]"
  proof (intro allI impI, elim conjE)
    fix t w1 e w2
    assume "AutoTokenizer_from_pretrained T model_name w = (Inr t, w1)"
      and "AutoConfig_from_pretrained T model_name w1 = (Inl e, w2)"
    from run_config_fetch_raises [OF this]
    show "fst (run T w) = Inl e \<and> exit_status T w \<noteq> 0 \<and> final T w = w2 \<and>
        calls T w = [(FetchTokenizer model_name, None), (FetchConfig model_name, Some e)]"
      by (simp add: run_defs)
  qed
  have third: "\<forall>t w1 c w2 e w3.
       AutoTokenizer_from_pretrained T model_name w = (Inr t, w1) \<and>
       AutoConfig_from_pretrained T model_name w1 = (Inr c, w2) \<and>
       tokenizer_save_pretrained T t ''./llama2_tokenizer'' w2 = (Inl e, w3) \<longrightarrow>
       fst (run T w) = Inl e \<and> exit_status T w \<noteq> 0 \<and> final T w = w3 \<and>
       calls T w = [(FetchTokenizer model_name, None), (FetchConfig model_name, None),
                    (SaveTokenizer t ''./llama2_tokenizer'', Some e)]"
  proof (intro allI impI, elim conjE)
    fix t w1 c w2 e w3
    assume "AutoTokenizer_from_pretrained T model_name w = (Inr t, w1)"
      and "AutoConfig_from_pretrained T model_name w1 = (Inr c, w2)"
      and "tokenizer_save_pretrained T t ''./llama2_tokenizer'' w2 = (Inl e, w3)"
    from run_tokenizer_save_raises [OF this]
    show "fst (run T w) = Inl e \<and> exit_status T w \<noteq> 0 \<and> final T w = w3 \<and>
        calls T w = [(FetchTokenizer model_name, None), (FetchConfig model_name, None),
                     (SaveTokenizer t ''./llama2_tokenizer'', Some e)]"
      by (simp add: run_defs)
  qed
  have fourth: "\<forall>t w1 c w2 w3 e w4.
       AutoTokenizer_from_pretrained T model_name w = (Inr t, w1) \<and>
       AutoConfig_from_pretrained T model_name w1 = (Inr c, w2) \<and>
       tokenizer_save_pretrained T t ''./llama2_tokenizer'' w2 = (Inr (), w3) \<and>
       config_save_pretrained T c ''./llama2_config'' w3 = (Inl e, w4) \<longrightarrow>
       fst (run T w) = Inl e \<and> exit_status T w \<noteq> 0 \<and> final T w = w4 \<and>
       calls T w = [(FetchTokenizer model_name, None), (FetchConfig model_name, None),
                    (SaveTokenizer t ''./llama2_tokenizer'', None),
                    (SaveConfig c ''./llama2_config'', Some e)]"
  proof (intro allI impI, elim conjE)
    fix t w1 c w2 w3 e w4
    assume "AutoTokenizer_from_pretrained T model_name w = (Inr t, w1)"
      and "AutoConfig_from_pretrained T model_name w1 = (Inr c, w2)"
      and "tokenizer_save_pretrained T t ''./llama2_tokenizer'' w2 = (Inr (), w3)"
      and "config_save_pretrained T c ''./llama2_config'' w3 = (Inl e, w4)"
    from run_config_save [OF this]
    show "fst (run T w) = Inl e \<and> exit_status T w \<noteq> 0 \<and> final T w = w4 \<and>
        calls T w = [(FetchTokenizer model_name, None), (FetchConfig model_name, None),
                     (SaveTokenizer t ''./llama2_tokenizer'', None),
                     (SaveConfig c ''./llama2_config'', Some e)]"
      by (simp add: run_defs outcome_def)
  qed
  have fifth: "\<forall>t w1 c w2 w3 w4.
       AutoTokenizer_from_pretrained T model_name w = (Inr t, w1) \<and>
       AutoConfig_from_pretrained T model_name w1 = (Inr c, w2) \<and>
       tokenizer_save_pretrained T t ''./llama2_tokenizer'' w2 = (Inr (), w3) \<and>
       config_save_pretrained T c ''./llama2_config'' w3 = (Inr (), w4) \<longrightarrow>
       fst (run T w) = Inr () \<and> exit_status T w = 0 \<and> final T w = w4 \<and>
       calls T w = [(FetchTokenizer model_name, None), (FetchConfig model_name, None),
                    (SaveTokenizer t ''./llama2_tokenizer'', None),
                    (SaveConfig c ''./llama2_config'', None)]"
  proof (intro allI impI, elim conjE)
    fix t w1 c w2 w3 w4
    assume "AutoTokenizer_from_pretrained T model_name w = (Inr t, w1)"
      and "AutoConfig_from_pretrained T model_name w1 = (Inr c, w2)"
      and "tokenizer_save_pretrained T t ''./llama2_tokenizer'' w2 = (Inr (), w3)"
      and "config_save_pretrained T c ''./llama2_config'' w3 = (Inr (), w4)"
    from run_config_save [OF this]
    show "fst (run T w) = Inr () \<and> exit_status T w = 0 \<and> final T w = w4 \<and>
        calls T w = [(FetchTokenizer model_name, None), (FetchConfig model_name, None),
                     (SaveTokenizer t ''./llama2_tokenizer'', None),
                     (SaveConfig c ''./llama2_config'', None)]"
      by (simp add: run_defs outcome_def)
  qed
  have s1: "calls T w \<noteq> []"
    by (cases T w rule: run_cases) (simp_all add: run_defs)
  have s2: "list_all (\<lambda>x. snd x = None) (butlast (calls T w))"
    by (cases T w rule: run_cases) (simp_all add: run_defs)
  have s3: "fst (run T w) =
      (case snd (last (calls T w)) of Some e \<Rightarrow> Inl e | None \<Rightarrow> Inr ())"
    by (cases T w rule: run_cases) (simp_all add: run_defs)
  have s4: "exit_status T w = 0 \<longleftrightarrow>
      length (calls T w) = 4 \<and> list_all (\<lambda>x. snd x = None) (calls T w)"
    by (cases T w rule: run_cases) (simp_all add: run_defs)
  have s5: "exit_status T w \<noteq> 0 \<longleftrightarrow> (\<exists>c e. (c, Some e) \<in> set (calls T w))"
    by (cases T w rule: run_cases) (auto simp add: run_defs)
  have s6: "exit_status T w \<noteq> 0 \<longleftrightarrow> (\<exists>e. snd (last (calls T w)) = Some e)"
    by (cases T w rule: run_cases) (simp_all add: run_defs)
  have truthful: "replay T (map fst (calls T w)) w = (calls T w, final T w)"
    by (rule replay_run)
  show ?thesis
    by (intro conjI first second third fourth fifth s1 s2 s3 s4 s5 s6 truthful)
qed

theorem no_error_handling_witness:
  "AutoTokenizer_from_pretrained hub_not_found model_name home_world =
     (Inl (PyException ''not found''), home_world) \<and>
   fst (run hub_not_found home_world) = Inl (PyException ''not found'') \<and>
   exit_status hub_not_found home_world \<noteq> 0 \<and>
   final hub_not_found home_world = home_world \<and>
   calls hub_not_found home_world =
     [(FetchTokenizer model_name, Some (PyException ''not found''))] \<and>
   AutoTokenizer_from_pretrained hub_without_config model_name home_world =
     (Inr ''llama vocabulary'', home_world) \<and>
   AutoConfig_from_pretrained hub_without_config model_name home_world =
     (Inl (PyException ''not found''), home_world) \<and>
   fst (run hub_without_config home_world) = Inl (PyException ''not found'') \<and>
   exit_status hub_without_config home_world \<noteq> 0 \<and>
   final hub_without_config home_world = home_world \<and>
   calls hub_without_config home_world =
     [(FetchTokenizer model_name, None),
      (FetchConfig model_name, Some (PyException ''not found''))] \<and>
   tokenizer_save_pretrained hub_tokenizer_unwritable ''llama vocabulary''
       ''./llama2_tokenizer'' home_world =
     (Inl (PyException ''permission denied''), home_world) \<and>
   fst (run hub_tokenizer_unwritable home_world) = Inl (PyException ''permission denied'') \<and>
   exit_status hub_tokenizer_unwritable home_world \<noteq> 0 \<and>
   final hub_tokenizer_unwritable home_world = home_world \<and>
   calls hub_tokenizer_unwritable home_world =
     [(FetchTokenizer model_name, None), (FetchConfig model_name, None),
      (SaveTokenizer ''llama vocabulary'' ''./llama2_tokenizer'',
       Some (PyException ''permission denied''))] \<and>
   fst (run hub_config_unwritable home_world) = Inl (PyException ''permission denied'') \<and>
   exit_status hub_config_unwritable home_world \<noteq> 0 \<and>
   final hub_config_unwritable home_world =
     home_world\<lparr>files := files home_world
        ++ tokenizer_files ''llama vocabulary'' ''./llama2_tokenizer''\<rparr> \<and>
   calls hub_config_unwritable home_world =
     [(FetchTokenizer model_name, None), (FetchConfig model_name, None),
      (SaveTokenizer ''llama vocabulary'' ''./llama2_tokenizer'', None),
      (SaveConfig ''llama hyperparameters'' ''./llama2_config'',
       Some (PyException ''permission denied''))] \<and>
   fst (run mock_hub home_world) = Inr () \<and>
   exit_status mock_hub home_world = 0 \<and>
   final mock_hub home_world =
     home_world\<lparr>files := files home_world
        ++ tokenizer_files ''llama vocabulary'' ''./llama2_tokenizer''
        ++ config_files ''llama hyperparameters'' ''./llama2_config''\<rparr> \<and>
   calls mock_hub home_world =
     [(FetchTokenizer model_name, None), (FetchConfig model_name, None),
      (SaveTokenizer ''llama vocabulary'' ''./llama2_tokenizer'', None),
      (SaveConfig ''llama hyperparameters'' ''./llama2_config'', None)]"
proof -
  let ?w3 = "home_world\<lparr>files := files home_world
      ++ tokenizer_files ''llama vocabulary'' ''./llama2_tokenizer''\<rparr>"
  let ?w4 = "home_world\<lparr>files := files home_world
      ++ tokenizer_files ''llama vocabulary'' ''./llama2_tokenizer''
      ++ config_files ''llama hyperparameters'' ''./llama2_config''\<rparr>"
  have a1: "AutoTokenizer_from_pretrained hub_not_found model_name home_world =
      (Inl (PyException ''not found''), home_world)"
    by (simp add: hub_defs)
  have b1: "AutoTokenizer_from_pretrained hub_without_config model_name home_world =
      (Inr ''llama vocabulary'', home_world)"
    and b2: "AutoConfig_from_pretrained hub_without_config model_name home_world =
      (Inl (PyException ''not found''), home_world)"
    by (simp_all add: hub_defs model_name_def)
  have c1: "AutoTokenizer_from_pretrained hub_tokenizer_unwritable model_name home_world =
      (Inr ''llama vocabulary'', home_world)"
    and c2: "AutoConfig_from_pretrained hub_tokenizer_unwritable model_name home_world =
      (Inr ''llama hyperparameters'', home_world)"
    and c3: "tokenizer_save_pretrained hub_tokenizer_unwritable ''llama vocabulary''
        ''./llama2_tokenizer'' home_world =
      (Inl (PyException ''permission denied''), home_world)"
    by (simp_all add: hub_defs model_name_def)
  have d1: "AutoTokenizer_from_pretrained hub_config_unwritable model_name home_world =
      (Inr ''llama vocabulary'', home_world)"
    and d2: "AutoConfig_from_pretrained hub_config_unwritable model_name home_world =
      (Inr ''llama hyperparameters'', home_world)"
    and d3: "tokenizer_save_pretrained hub_config_unwritable ''llama vocabulary''
        ''./llama2_tokenizer'' home_world = (Inr (), ?w3)"
    and d4: "config_save_pretrained hub_config_unwritable ''llama hyperparameters''
        ''./llama2_config'' ?w3 = (Inl (PyException ''permission denied''), ?w3)"
    by (simp_all add: hub_defs more_hub_defs model_name_def)
  have e1: "AutoTokenizer_from_pretrained mock_hub model_name home_world =
      (Inr ''llama vocabulary'', home_world)"
    and e2: "AutoConfig_from_pretrained mock_hub model_name home_world =
      (Inr ''llama hyperparameters'', home_world)"
    and e3: "tokenizer_save_pretrained mock_hub ''llama vocabulary''
        ''./llama2_tokenizer'' home_world = (Inr (), ?w3)"
    and e4: "config_save_pretrained mock_hub ''llama hyperparameters''
        ''./llama2_config'' ?w3 = (Inr (), ?w4)"
    by (simp_all add: hub_defs model_name_def)
  note a = no_error_handling [of hub_not_found home_world, THEN conjunct1, rule_format, OF a1]
  note b = no_error_handling [of hub_without_config home_world, THEN conjunct2,
      THEN conjunct1, rule_format, OF conjI [OF b1 b2]]
  note c = no_error_handling [of hub_tokenizer_unwritable home_world, THEN conjunct2,
      THEN conjunct2, THEN conjunct1, rule_format,
      OF conjI [OF c1 conjI [OF c2 c3]]]
  note d = no_error_handling [of hub_config_unwritable home_world, THEN conjunct2,
      THEN conjunct2, THEN conjunct2, THEN conjunct1, rule_format,
      OF conjI [OF d1 conjI [OF d2 conjI [OF d3 d4]]]]
  note e = no_error_handling [of mock_hub home_world, THEN conjunct2,
      THEN conjunct2, THEN conjunct2, THEN conjunct2, THEN conjunct1, rule_format,
      OF conjI [OF e1 conjI [OF e2 conjI [OF e3 e4]]]]
  note a' = a [THEN conjunct1] a [THEN conjunct2, THEN conjunct1]
    a [THEN conjunct2, THEN conjunct2, THEN conjunct1]
    a [THEN conjunct2, THEN conjunct2, THEN conjunct2]
  note b' = b [THEN conjunct1] b [THEN conjunct2, THEN conjunct1]
    b [THEN conjunct2, THEN conjunct2, THEN conjunct1]
    b [THEN conjunct2, THEN conjunct2, THEN conjunct2]
  note c' = c [THEN conjunct1] c [THEN conjunct2, THEN conjunct1]
    c [THEN conjunct2, THEN conjunct2, THEN conjunct1]
    c [THEN conjunct2, THEN conjunct2, THEN conjunct2]
  note d' = d [THEN conjunct1] d [THEN conjunct2, THEN conjunct1]
    d [THEN conjunct2, THEN conjunct2, THEN conjunct1]
    d [THEN conjunct2, THEN conjunct2, THEN conjunct2]
  note e' = e [THEN conjunct1] e [THEN conjunct2, THEN conjunct1]
    e [THEN conjunct2, THEN conjunct2, THEN conjunct1]
    e [THEN conjunct2, THEN conjunct2, THEN conjunct2]
  show ?thesis
    by (intro conjI a1 b1 b2 c3 a' b' c' d' e')
qed

text \<open>
  Claim C5: when a fetch fails, the exit status is not 0 and the run makes no save; so it
  leaves every path as it was that the fetches themselves leave alone, the two output
  directories among them when the library's fetches do not write there.
\<close>

theorem fetch_failure:
  fixes T :: "('t, 'c, 'r) transformers"
  assumes "fetch_fails T w"
  shows "exit_status T w \<noteq> 0 \<and>
    (\<forall>t d r. (SaveTokenizer t d, r) \<notin> set (calls T w)) \<and>
    (\<forall>c d r. (SaveConfig c d, r) \<notin> set (calls T w)) \<and>
    (\<forall>p. fetch_keeps T p \<longrightarrow> files (final T w) p = files w p)"
  using assms
  by (cases T w rule: run_cases)
    (auto simp add: run_defs fetch_fails_def fetch_keeps_tokenizer fetch_keeps_config)

theorem fetch_failure_witness:
  "fetch_fails hub_not_found empty_world \<and>
   exit_status hub_not_found empty_world \<noteq> 0 \<and>
   fetch_keeps hub_not_found ''./llama2_tokenizer'' \<and>
   fetch_keeps hub_not_found ''./llama2_config'' \<and>
   files (final hub_not_found empty_world) ''./llama2_tokenizer'' =
     files empty_world ''./llama2_tokenizer'' \<and>
   files (final hub_not_found empty_world) ''./llama2_config'' =
     files empty_world ''./llama2_config''"
proof -
  have "fetch_fails hub_not_found empty_world"
    by (simp add: fetch_fails_def hub_defs)
  from fetch_failure [OF this] doubles_fetch_keeps(2) this show ?thesis
    by blast
qed

text \<open>
  Claim C9: a run that makes a save has made both fetches first, and both returned. So when
  a fetch raised, the config fetch after a tokenizer fetch that returned included, the
  run makes no save and leaves every path as it was that the fetches leave alone: the whole
  filesystem, when the library's fetches do not write to it.
\<close>

theorem fetches_before_saves:
  fixes T :: "('t, 'c, 'r) transformers"
  shows "(\<forall>t c d r.
       (SaveTokenizer t d, r) \<in> set (calls T w) \<or> (SaveConfig c d, r) \<in> set (calls T w) \<longrightarrow>
       take 2 (calls T w) = [(FetchTokenizer model_name, None), (FetchConfig model_name, None)]) \<and>
    ((\<exists>e. (FetchTokenizer model_name, Some e) \<in> set (calls T w) \<or>
          (FetchConfig model_name, Some e) \<in> set (calls T w)) \<longrightarrow>
       (\<forall>t d r. (SaveTokenizer t d, r) \<notin> set (calls T w)) \<and>
       (\<forall>c d r. (SaveConfig c d, r) \<notin> set (calls T w)) \<and>
       (\<forall>p. fetch_keeps T p \<longrightarrow> files (final T w) p = files w p) \<and>
       ((\<forall>p. fetch_keeps T p) \<longrightarrow> files (final T w) = files w))"
  by (cases T w rule: run_cases)
    (auto simp add: run_defs fetch_keeps_tokenizer fetch_keeps_config
      fetch_keeps_all_tokenizer fetch_keeps_all_config)

theorem fetches_before_saves_witness:
  "(SaveTokenizer ''llama vocabulary'' ''./llama2_tokenizer'', None)
      \<in> set (calls mock_hub home_world) \<and>
   take 2 (calls mock_hub home_world) =
     [(FetchTokenizer model_name, None), (FetchConfig model_name, None)] \<and>
   (FetchTokenizer model_name, None) \<in> set (calls hub_without_config home_world) \<and>
   (FetchConfig model_name, Some (PyException ''not found''))
      \<in> set (calls hub_without_config home_world) \<and>
   (\<forall>p. fetch_keeps hub_without_config p) \<and>
   files (final hub_without_config home_world) = files home_world"
proof -
  have s: "(SaveTokenizer ''llama vocabulary'' ''./llama2_tokenizer'', None)
      \<in> set (calls mock_hub home_world)"
    by (simp add: calls_def mock_hub_run)
  have t: "(FetchTokenizer model_name, None) \<in> set (calls hub_without_config home_world)"
    and c: "(FetchConfig model_name, Some (PyException ''not found''))
      \<in> set (calls hub_without_config home_world)"
    by (simp_all add: calls_def hub_without_config_run model_name_def)
  have k: "\<forall>p. fetch_keeps hub_without_config p"
    by (simp add: doubles_fetch_keeps)
  from fetches_before_saves [of mock_hub home_world] s
  have "take 2 (calls mock_hub home_world) =
      [(FetchTokenizer model_name, None), (FetchConfig model_name, None)]"
    by blast
  moreover from fetches_before_saves [of hub_without_config home_world] c k
  have "files (final hub_without_config home_world) = files home_world"
    by blast
  ultimately show ?thesis
    using s t c k by blast
qed

section \<open>What a run writes\<close>

text \<open>
  Claim C8: given that a save writes only under its destination, a run leaves every path
  outside \<open>./llama2_tokenizer\<close> and \<open>./llama2_config\<close> as it was, as far as the fetches
  leave it alone; the only saves it makes are to these two paths; and given that a save
  that returns has created its directory, both directories exist after a run that exits
  with status 0.
\<close>

theorem only_destinations_written:
  fixes T :: "('t, 'c, 'r) transformers"
  assumes "saves_write_under T"
  shows "(\<forall>p. fetch_keeps T p \<and> \<not> under ''./llama2_tokenizer'' p \<and>
            \<not> under ''./llama2_config'' p \<longrightarrow> files (final T w) p = files w p) \<and>
    (\<forall>t d r. (SaveTokenizer t d, r) \<in> set (calls T w) \<longrightarrow> d = ''./llama2_tokenizer'') \<and>
    (\<forall>c d r. (SaveConfig c d, r) \<in> set (calls T w) \<longrightarrow> d = ''./llama2_config'') \<and>
    (saves_create_directory T \<and> exit_status T w = 0 \<longrightarrow>
       files (final T w) ''./llama2_tokenizer'' = Some Directory \<and>
       files (final T w) ''./llama2_config'' = Some Directory)"
proof (cases T w rule: run_cases)
  case (tokenizer_fetch_raises e w1)
  then show ?thesis
    by (auto simp add: run_defs fetch_keeps_tokenizer)
next
  case (config_fetch_raises t w1 e w2)
  then show ?thesis
    by (auto simp add: run_defs fetch_keeps_tokenizer fetch_keeps_config)
next
  case (tokenizer_save_raises t w1 c w2 e w3)
  then show ?thesis
    using saves_write_under_tokenizer [OF assms]
    by (auto simp add: run_defs fetch_keeps_tokenizer fetch_keeps_config)
next
  case (config_save_raises t w1 c w2 w3 e w4)
  then show ?thesis
    using saves_write_under_tokenizer [OF assms] saves_write_under_config [OF assms]
    by (auto simp add: run_defs fetch_keeps_tokenizer fetch_keeps_config)
next
  case (all_return t w1 c w2 w3 w4)
  have "files w4 p = files w p"
    if "fetch_keeps T p" "\<not> under ''./llama2_tokenizer'' p" "\<not> under ''./llama2_config'' p"
    for p
    using that all_return saves_write_under_tokenizer [OF assms]
      saves_write_under_config [OF assms]
    by (simp add: fetch_keeps_tokenizer fetch_keeps_config)
  moreover have "files w4 ''./llama2_tokenizer'' = Some Directory"
    and "files w4 ''./llama2_config'' = Some Directory"
    if "saves_create_directory T"
  proof -
    from that all_return show "files w4 ''./llama2_config'' = Some Directory"
      unfolding saves_create_directory_def by blast
    from that all_return have "files w3 ''./llama2_tokenizer'' = Some Directory"
      unfolding saves_create_directory_def by blast
    moreover have "\<not> under ''./llama2_config'' ''./llama2_tokenizer''"
      by (simp add: under_def)
    ultimately show "files w4 ''./llama2_tokenizer'' = Some Directory"
      using all_return saves_write_under_config [OF assms] by simp
  qed
  ultimately show ?thesis
    using all_return by (auto simp add: run_defs)
qed

theorem only_destinations_written_witness:
  "saves_write_under mock_hub \<and> saves_create_directory mock_hub \<and>
   fetch_keeps mock_hub ''./notes.txt'' \<and>
   \<not> under ''./llama2_tokenizer'' ''./notes.txt'' \<and>
   \<not> under ''./llama2_config'' ''./notes.txt'' \<and>
   files home_world ''./notes.txt'' = Some (File ''keep'') \<and>
   files (final mock_hub home_world) ''./notes.txt'' = Some (File ''keep'') \<and>
   (\<exists>t. (SaveTokenizer t ''./llama2_tokenizer'', None) \<in> set (calls mock_hub home_world)) \<and>
   (\<exists>c. (SaveConfig c ''./llama2_config'', None) \<in> set (calls mock_hub home_world)) \<and>
   exit_status mock_hub home_world = 0 \<and>
   files home_world ''./llama2_tokenizer'' = None \<and>
   files home_world ''./llama2_config'' = None \<and>
   files (final mock_hub home_world) ''./llama2_tokenizer'' = Some Directory \<and>
   files (final mock_hub home_world) ''./llama2_config'' = Some Directory"
proof -
  note inst = only_destinations_written [OF doubles_write_under(1), of home_world]
  have out: "\<not> under ''./llama2_tokenizer'' ''./notes.txt''"
    "\<not> under ''./llama2_config'' ''./notes.txt''"
    by (simp_all add: under_def)
  have before: "files home_world ''./notes.txt'' = Some (File ''keep'')"
    "files home_world ''./llama2_tokenizer'' = None"
    "files home_world ''./llama2_config'' = None"
    by (simp_all add: home_world_def)
  have ok: "exit_status mock_hub home_world = 0"
    by (simp add: run_defs mock_hub_run)
  obtain t d c d' where saves:
    "(SaveTokenizer t d, None) \<in> set (calls mock_hub home_world)"
    "(SaveConfig c d', None) \<in> set (calls mock_hub home_world)"
    by (simp add: calls_def mock_hub_run)
  with inst have "d = ''./llama2_tokenizer''" "d' = ''./llama2_config''"
    by blast+
  with saves have
    "\<exists>t. (SaveTokenizer t ''./llama2_tokenizer'', None) \<in> set (calls mock_hub home_world)"
    "\<exists>c. (SaveConfig c ''./llama2_config'', None) \<in> set (calls mock_hub home_world)"
    by blast+
  moreover from inst doubles_fetch_keeps(1) out before(1)
  have "files (final mock_hub home_world) ''./notes.txt'' = Some (File ''keep'')"
    by simp
  moreover from inst mock_hub_creates_directory ok
  have "files (final mock_hub home_world) ''./llama2_tokenizer'' = Some Directory"
    "files (final mock_hub home_world) ''./llama2_config'' = Some Directory"
    by blast+
  ultimately show ?thesis
    using doubles_write_under(1) mock_hub_creates_directory doubles_fetch_keeps(1) out before ok
    by blast
qed

section \<open>Running twice\<close>




section \<open>What a run depends on\<close>



section \<open>The two pipelines\<close>






end
